theory Spec2Isabelle
  imports Complex_Main
begin

section \<open>Raw JSON values\<close>

text \<open>
  The values a stratum stores and \<open>fromJson\<close> receives (\<open>jsonValue: any\<close>). A number is
  carried as an uninterpreted value of type \<open>'n\<close>: no function of \<open>PrimitiveTrait\<close>
  looks inside it.
\<close>

datatype 'n json =
    JUndefined
  | JNull
  | JBoolean bool
  | JNumber 'n
  | JString string
  | JArray "'n json list"
  | JObject "(string \<times> 'n json) list"

text \<open>JavaScript's \<open>typeof\<close>: \<open>null\<close>, arrays and objects are all \<open>"object"\<close>.\<close>

fun typeof :: "'n json \<Rightarrow> string" where
  "typeof JUndefined = ''undefined''"
| "typeof JNull = ''object''"
| "typeof (JBoolean b) = ''boolean''"
| "typeof (JNumber n) = ''number''"
| "typeof (JString s) = ''string''"
| "typeof (JArray xs) = ''object''"
| "typeof (JObject kvs) = ''object''"

section \<open>Strata and models\<close>

text \<open>
  A stratum is an object read by property name; \<open>stratum[id]\<close> is \<open>undefined\<close> for a
  property the object does not have.
\<close>

type_synonym 'n stratum = "string \<rightharpoonup> 'n json"

definition stratum_get :: "'n stratum \<Rightarrow> string \<Rightarrow> 'n json" where
  "stratum_get stratum key = (case stratum key of None \<Rightarrow> JUndefined | Some v \<Rightarrow> v)"

text \<open>
  \<open>BaseModel.strataTopToBottom\<close> is a \<open>Map\<close> from stratum name to stratum whose
  \<open>values()\<close> are visited in order, highest priority first.
\<close>

record 'n BaseModel =
  strataTopToBottom :: "(string \<times> 'n stratum) list"

definition values_of :: "('k \<times> 'v) list \<Rightarrow> 'v list" where
  "values_of m = map snd m"

section \<open>Primitive traits\<close>

datatype PrimitiveType = String_t | Number_t | Boolean_t

text \<open>The string each member of the union type \<open>"string" | "number" | "boolean"\<close> is.\<close>

fun type_string :: "PrimitiveType \<Rightarrow> string" where
  "type_string String_t = ''string''"
| "type_string Number_t = ''number''"
| "type_string Boolean_t = ''boolean''"

record TraitOptions =
  opt_name :: string
  opt_description :: string

record PrimitiveTraitOptions = TraitOptions +
  opt_type :: PrimitiveType
  opt_isNullable :: "bool option"

text \<open>The fields the base class \<open>Trait\<close> keeps: the property key and the two options.\<close>

record TraitFields =
  trait_id :: string
  trait_name :: string
  trait_description :: string

record PrimitiveTrait = TraitFields +
  trait_type :: PrimitiveType
  isNullable :: bool

text \<open>The constructor: \<open>this.isNullable = options.isNullable || false\<close>.\<close>

definition new_PrimitiveTrait :: "string \<Rightarrow> PrimitiveTraitOptions \<Rightarrow> PrimitiveTrait" where
  "new_PrimitiveTrait key options =
     \<lparr> trait_id = key,
       trait_name = opt_name options,
       trait_description = opt_description options,
       trait_type = opt_type options,
       isNullable = (case opt_isNullable options of None \<Rightarrow> False | Some b \<Rightarrow> b) \<rparr>"

text \<open>
  A trait seen through the base type \<open>Trait\<close>: an instance of \<open>PrimitiveTrait\<close>, or an
  instance of some other subclass, of which only the base fields are known here.
\<close>

datatype Trait =
    IsPrimitiveTrait PrimitiveTrait
  | IsOtherTrait TraitFields

subsection \<open>getValue\<close>

text \<open>
  The \<open>for\<close> loop over \<open>strataTopToBottom.values()\<close>: return the first stored value
  that is not \<open>undefined\<close>, and \<open>undefined\<close> after the loop.
\<close>

fun getValue_loop :: "string \<Rightarrow> 'n stratum list \<Rightarrow> 'n json" where
  "getValue_loop key [] = JUndefined"
| "getValue_loop key (stratum # rest) =
     (let v = stratum_get stratum key in
      if v \<noteq> JUndefined then v else getValue_loop key rest)"

definition getValue :: "PrimitiveTrait \<Rightarrow> 'n BaseModel \<Rightarrow> 'n json" where
  "getValue this model = getValue_loop (trait_id this) (values_of (strataTopToBottom model))"

subsection \<open>fromJson and toJson\<close>

datatype TerriaErrorSeverity = Error | Warning

record TerriaErrorOptions =
  title :: string
  message :: string
  severity :: TerriaErrorSeverity

text \<open>
  Modelled from the spec: the class \<open>Result\<close> of \<open>Core/Result\<close> is not among the
  sources. \<open>fromJson\<close> produces "either a success value or a typed, severity-tagged
  error": \<open>Result.error(options)\<close> is \<open>ResultError\<close>, \<open>new Result(value)\<close> is
  \<open>ResultValue\<close>.
\<close>

datatype 'a Result =
    ResultError TerriaErrorOptions
  | ResultValue 'a

definition invalid_property_message :: "string \<Rightarrow> string \<Rightarrow> string \<Rightarrow> string" where
  "invalid_property_message key expected actual =
     ''Property '' @ key @ '' is expected to be of type '' @ expected
       @ '' but instead it is of type '' @ actual @ ''.''"

definition fromJson ::
  "PrimitiveTrait \<Rightarrow> 'n BaseModel \<Rightarrow> string \<Rightarrow> 'n json \<Rightarrow> 'n json Result" where
  "fromJson this model stratumName jsonValue =
     (if typeof jsonValue \<noteq> type_string (trait_type this)
         \<and> (\<not> isNullable this \<or> jsonValue \<noteq> JNull)
      then ResultError
             \<lparr> title = ''Invalid property'',
               message = invalid_property_message (trait_id this)
                           (type_string (trait_type this)) (typeof jsonValue),
               severity = Warning \<rparr>
      else ResultValue jsonValue)"

definition toJson :: "PrimitiveTrait \<Rightarrow> 'n json \<Rightarrow> 'n json" where
  "toJson this v = v"

subsection \<open>isSameType\<close>

definition isSameType :: "PrimitiveTrait \<Rightarrow> Trait \<Rightarrow> bool" where
  "isSameType this trait =
     (case trait of
        IsPrimitiveTrait p \<Rightarrow> trait_type p = trait_type this \<and> isNullable p = isNullable this
      | IsOtherTrait other \<Rightarrow> False)"

section \<open>Trait declarations of a traits class\<close>

text \<open>
  A property of a traits class, as \<open>ArcGisPortalCatalogGroupTraits\<close> declares them: the
  decorator \<open>@primitiveTrait(options)\<close> on a property with an optional initializer, which
  is the default declared with the schema.
\<close>

record 'n PropertyDeclaration =
  propertyKey :: string
  decorator_options :: PrimitiveTraitOptions
  initializer :: "'n json"

text \<open>
  The decorator stores \<open>new PrimitiveTrait(propertyKey, options)\<close> under the property key
  in the constructor's \<open>traits\<close> table. It never sees the initializer.
\<close>

definition primitiveTrait ::
  "PrimitiveTraitOptions \<Rightarrow> (string \<rightharpoonup> PrimitiveTrait) \<Rightarrow> string \<Rightarrow> (string \<rightharpoonup> PrimitiveTrait)" where
  "primitiveTrait options traits key = traits(key \<mapsto> new_PrimitiveTrait key options)"

definition declare_property ::
  "'n PropertyDeclaration \<Rightarrow> (string \<rightharpoonup> PrimitiveTrait) \<Rightarrow> (string \<rightharpoonup> PrimitiveTrait)" where
  "declare_property d traits = primitiveTrait (decorator_options d) traits (propertyKey d)"

text \<open>\<open>hideEmptyGroups: boolean = true\<close> of \<open>ArcGisPortalCatalogGroupTraits\<close>.\<close>

definition hideEmptyGroups :: "'n PropertyDeclaration" where
  "hideEmptyGroups =
     \<lparr> propertyKey = ''hideEmptyGroups'',
       decorator_options =
         \<lparr> opt_name = ''Hide empty groups'',
           opt_description = ''If a group has no items don't display it in the catalog'',
           opt_type = Boolean_t,
           opt_isNullable = None \<rparr>,
       initializer = JBoolean True \<rparr>"

section \<open>Loadable strata of the WMS catalog item\<close>

type_synonym ref = nat

text \<open>What can be thrown by library code the sources call.\<close>

datatype thrown = TypeError | DeveloperError

text \<open>\<open>new TerriaError({ title, message })\<close>.\<close>

record TerriaError =
  error_title :: string
  error_message :: string

text \<open>
  The state of a \<open>WebMapServiceCatalogItem\<close> that the strata read: the resolved values of
  its traits and getters, and its \<open>strata\<close> map from stratum name to stratum object, kept
  in insertion order.
\<close>

record WebMapServiceCatalogItem =
  getCapabilitiesUrl :: "string option"
  getCapabilitiesCacheDuration :: "string option"
  isShowingDiff :: "bool option"
  diffStyleId :: "string option"
  firstDiffDate :: "string option"
  secondDiffDate :: "string option"
  strata :: "(string \<times> ref) list"

text \<open>
  The two classes of loadable stratum. Both keep the owning item as a reference;
  \<open>GetCapabilitiesStratum\<close> also keeps the capabilities document it was built from.
\<close>

datatype 'c LoadableStratum =
    GetCapabilitiesStratum (catalogItem: ref) (capabilities: 'c)
  | DiffStratum (catalogItem: ref)

text \<open>
  The objects the code works on: the catalog items, the stratum objects created so far (a
  reference is an index, \<open>new\<close> appends), the lines written to the console and the URLs
  requested from the network.
\<close>

record 'c World =
  items :: "ref \<Rightarrow> WebMapServiceCatalogItem"
  strataObjects :: "'c LoadableStratum list"
  console :: "string list"
  requests :: "string list"

definition stratum_at :: "'c World \<Rightarrow> ref \<Rightarrow> 'c LoadableStratum option" where
  "stratum_at w r = (if r < length (strataObjects w) then Some (strataObjects w ! r) else None)"

definition new_stratum :: "'c World \<Rightarrow> 'c LoadableStratum \<Rightarrow> ref \<times> 'c World" where
  "new_stratum w s = (length (strataObjects w), w\<lparr>strataObjects := strataObjects w @ [s]\<rparr>)"

text \<open>\<open>Map.prototype.set\<close>: replace the value of an existing key in place, or append.\<close>

fun map_set :: "('k \<times> 'v) list \<Rightarrow> 'k \<Rightarrow> 'v \<Rightarrow> ('k \<times> 'v) list" where
  "map_set [] k v = [(k, v)]"
| "map_set ((k', v') # m) k v =
     (if k' = k then (k, v) # m else (k', v') # map_set m k v)"

definition strata_set :: "'c World \<Rightarrow> ref \<Rightarrow> string \<Rightarrow> ref \<Rightarrow> 'c World" where
  "strata_set w item stratumName stratum =
     w\<lparr>items := (items w)
         (item := (items w item)\<lparr>strata := map_set (strata (items w item)) stratumName stratum\<rparr>)\<rparr>"

text \<open>
  What the strata use and the sources do not contain: the translation function
  \<open>i18next.t\<close>, \<open>proxyCatalogItemUrl\<close>, the outcome of the promise of
  \<open>WebMapServiceCapabilities.fromUrl\<close> (rejected or resolved with a document), the stratum
  names of the two mixins, the item's \<open>getLegendUrlForStyle\<close> applied to the parsed diff
  dates, and the \<open>format\<close> search parameter of a URL (\<open>new URL\<close> throws on a malformed
  one).
\<close>

record 'c Env =
  i18next_t :: "string \<Rightarrow> string"
  proxyCatalogItemUrl :: "WebMapServiceCatalogItem \<Rightarrow> string \<Rightarrow> string option \<Rightarrow> string"
  fromUrl :: "string \<Rightarrow> TerriaError + 'c"
  getCapabilitiesStratumName :: string
  diffStratumName :: string
  getLegendUrlForStyle :: "WebMapServiceCatalogItem \<Rightarrow> string \<Rightarrow> string \<Rightarrow> string \<Rightarrow> thrown + string"
  URL_format :: "string \<Rightarrow> thrown + string option"

subsection \<open>GetCapabilitiesStratum.load and forceLoadMetadata\<close>

text \<open>
  A promise is modelled by its outcome: \<open>Inl\<close> the reason of a rejection, \<open>Inr\<close> the value
  it resolves to.
\<close>

definition load :: "'c Env \<Rightarrow> 'c World \<Rightarrow> ref \<Rightarrow> (TerriaError + ref) \<times> 'c World" where
  "load env w item =
     (let w1 = w\<lparr>console := console w @ [''Loading GetCapabilities'']\<rparr> in
      case getCapabilitiesUrl (items w1 item) of
        None \<Rightarrow>
          (Inl \<lparr> error_title = i18next_t env ''models.webMapServiceCatalogItem.missingUrlTitle'',
                 error_message = i18next_t env ''models.webMapServiceCatalogItem.missingUrlMessage'' \<rparr>,
           w1)
      | Some url \<Rightarrow>
          (let proxiedUrl = proxyCatalogItemUrl env (items w1 item) url
                              (getCapabilitiesCacheDuration (items w1 item));
               w2 = w1\<lparr>requests := requests w1 @ [proxiedUrl]\<rparr> in
           case fromUrl env proxiedUrl of
             Inl reason \<Rightarrow> (Inl reason, w2)
           | Inr document \<Rightarrow>
               (case new_stratum w2 (GetCapabilitiesStratum item document) of
                  (stratum, w3) \<Rightarrow> (Inr stratum, w3))))"

text \<open>
  \<open>load(this).then(stratum => ...)\<close>: the callback runs only when the promise resolves; a
  rejection passes through \<open>then\<close> unchanged.
\<close>

definition forceLoadMetadata ::
  "'c Env \<Rightarrow> 'c World \<Rightarrow> ref \<Rightarrow> (TerriaError + unit) \<times> 'c World" where
  "forceLoadMetadata env w this =
     (case load env w this of
        (Inl reason, w1) \<Rightarrow> (Inl reason, w1)
      | (Inr stratum, w1) \<Rightarrow>
          (let w2 = strata_set w1 this (getCapabilitiesStratumName env) stratum in
           case new_stratum w2 (DiffStratum this) of
             (diffStratum, w3) \<Rightarrow>
               (Inr (), strata_set w3 this (diffStratumName env) diffStratum)))"

subsection \<open>duplicateLoadableStratum\<close>

text \<open>
  Both classes build a new object of their own class around the given model;
  \<open>GetCapabilitiesStratum\<close> hands its \<open>capabilities\<close> on. The result is \<open>None\<close> when
  \<open>this\<close> is not a stratum object.
\<close>

definition duplicateLoadableStratum ::
  "'c World \<Rightarrow> ref \<Rightarrow> ref \<Rightarrow> (ref \<times> 'c World) option" where
  "duplicateLoadableStratum w this model =
     (case stratum_at w this of
        None \<Rightarrow> None
      | Some (GetCapabilitiesStratum owner document) \<Rightarrow>
          Some (new_stratum w (GetCapabilitiesStratum model document))
      | Some (DiffStratum owner) \<Rightarrow>
          Some (new_stratum w (DiffStratum model)))"

subsection \<open>The computed values of DiffStratum\<close>

text \<open>
  JavaScript truthiness of an optional string (\<open>undefined\<close>, \<open>null\<close> and the empty string
  are falsy) and of an optional boolean.
\<close>

definition truthy_string :: "string option \<Rightarrow> bool" where
  "truthy_string s = (case s of None \<Rightarrow> False | Some str \<Rightarrow> str \<noteq> [])"

definition truthy_bool :: "bool option \<Rightarrow> bool" where
  "truthy_bool b = (case b of None \<Rightarrow> False | Some v \<Rightarrow> v)"

record LegendTraits =
  url :: string
  urlMimeType :: "string option"

text \<open>Each getter reads \<open>this.catalogItem\<close> only; \<open>owner\<close> is the state of that item.\<close>

definition diffLegendUrl :: "'c Env \<Rightarrow> WebMapServiceCatalogItem \<Rightarrow> thrown + string option" where
  "diffLegendUrl env owner =
     (case (diffStyleId owner, firstDiffDate owner, secondDiffDate owner) of
        (Some styleId, Some firstDate, Some secondDate) \<Rightarrow>
          (if styleId \<noteq> [] \<and> firstDate \<noteq> [] \<and> secondDate \<noteq> []
           then (case getLegendUrlForStyle env owner styleId firstDate secondDate of
                   Inl e \<Rightarrow> Inl e
                 | Inr u \<Rightarrow> Inr (Some u))
           else Inr None)
      | _ \<Rightarrow> Inr None)"

definition legends :: "'c Env \<Rightarrow> WebMapServiceCatalogItem \<Rightarrow> thrown + LegendTraits list option" where
  "legends env owner =
     (if \<not> truthy_bool (isShowingDiff owner) then Inr None
      else case diffLegendUrl env owner of
        Inl e \<Rightarrow> Inl e
      | Inr None \<Rightarrow> Inr None
      | Inr (Some legendUrl) \<Rightarrow>
          (if legendUrl = [] then Inr None
           else case URL_format env legendUrl of
             Inl e \<Rightarrow> Inl e
           | Inr format \<Rightarrow>
               Inr (Some [\<lparr> url = legendUrl,
                            urlMimeType = (if truthy_string format then format else None) \<rparr>])))"

definition disableStyleSelector :: "WebMapServiceCatalogItem \<Rightarrow> bool option" where
  "disableStyleSelector owner = isShowingDiff owner"

definition disableDateTimeSelector :: "WebMapServiceCatalogItem \<Rightarrow> bool option" where
  "disableDateTimeSelector owner = isShowingDiff owner"

text \<open>The four computed values of the \<open>DiffStratum\<close> object at a reference.\<close>

record DiffStratumValues =
  value_legends :: "thrown + LegendTraits list option"
  value_diffLegendUrl :: "thrown + string option"
  value_disableStyleSelector :: "bool option"
  value_disableDateTimeSelector :: "bool option"

definition DiffStratum_values :: "'c Env \<Rightarrow> 'c World \<Rightarrow> ref \<Rightarrow> DiffStratumValues option" where
  "DiffStratum_values env w stratum =
     (case stratum_at w stratum of
        Some (DiffStratum owner) \<Rightarrow>
          Some \<lparr> value_legends = legends env (items w owner),
                 value_diffLegendUrl = diffLegendUrl env (items w owner),
                 value_disableStyleSelector = disableStyleSelector (items w owner),
                 value_disableDateTimeSelector = disableDateTimeSelector (items w owner) \<rparr>
      | _ \<Rightarrow> None)"

subsection \<open>A sample world\<close>

text \<open>
  Two catalog items, the first showing a difference image, and the two strata of the
  first; an environment whose translation function returns the key.
\<close>

definition sample_item :: WebMapServiceCatalogItem where
  "sample_item =
     \<lparr> getCapabilitiesUrl = None, getCapabilitiesCacheDuration = None,
       isShowingDiff = None, diffStyleId = None, firstDiffDate = None, secondDiffDate = None,
       strata = [(''user'', 0)] \<rparr>"

definition sample_env :: "string Env" where
  "sample_env =
     \<lparr> i18next_t = (\<lambda>key. key),
       proxyCatalogItemUrl = (\<lambda>item u cache. u),
       fromUrl = (\<lambda>u. Inr u),
       getCapabilitiesStratumName = ''getCapabilities'',
       diffStratumName = ''diffStratum'',
       getLegendUrlForStyle = (\<lambda>item styleId firstDate secondDate.
          Inr (''legend?styles='' @ styleId @ ''&time='' @ firstDate @ '','' @ secondDate)),
       URL_format = (\<lambda>u. Inr None) \<rparr>"

definition sample_world :: "string World" where
  "sample_world =
     \<lparr> items = (\<lambda>r. if r = 0 then sample_item\<lparr>isShowingDiff := Some True\<rparr> else sample_item\<lparr>strata := []\<rparr>),
       strataObjects = [DiffStratum 0, GetCapabilitiesStratum 0 ''capabilities''],
       console = [], requests = [] \<rparr>"

section \<open>Properties of primitive traits\<close>

lemma getValue_loop_skip:
  "\<forall>a\<in>set higher. stratum_get a key = JUndefined \<Longrightarrow>
   getValue_loop key (higher @ rest) = getValue_loop key rest"
  by (induction higher) simp_all

lemma getValue_loop_find:
  "getValue_loop key layers =
     (case find (\<lambda>s. stratum_get s key \<noteq> JUndefined) layers of
        None \<Rightarrow> JUndefined
      | Some s \<Rightarrow> stratum_get s key)"
  by (induction layers) (simp_all add: Let_def)

text \<open>
  C1. \<open>PrimitiveTrait.getValue\<close> visits the strata of the model top to bottom and
  returns the stored value of the first stratum whose value for the trait's id is not
  \<open>undefined\<close>: when every stratum above a stratum stores \<open>undefined\<close> and that stratum
  stores a defined value, the result is that value, whatever strata lie below it.
\<close>

theorem getValue_first_defined_wins:
  assumes "strataTopToBottom model = higher @ (name, stratum) # lower"
    and "\<forall>a\<in>set higher. stratum_get (snd a) (trait_id this) = JUndefined"
    and "stratum_get stratum (trait_id this) \<noteq> JUndefined"
  shows "getValue this model = stratum_get stratum (trait_id this)
       \<and> getValue this (model\<lparr>strataTopToBottom := higher @ (name, stratum) # lower'\<rparr>)
           = getValue this model"
proof -
  have skip: "\<forall>a\<in>set (map snd higher). stratum_get a (trait_id this) = JUndefined"
    using assms(2) by simp
  have first: "getValue_loop (trait_id this) (map snd higher @ stratum # map snd rest)
          = stratum_get stratum (trait_id this)" for rest :: "(string \<times> 'a stratum) list"
    using getValue_loop_skip [OF skip] assms(3) by (simp add: Let_def)
  show ?thesis
    using assms(1) by (simp add: getValue_def values_of_def first)
qed

theorem getValue_first_defined_wins_witness:
  "getValue (new_PrimitiveTrait ''groupBy''
       \<lparr>opt_name = ''Group By'', opt_description = [], opt_type = String_t, opt_isNullable = None\<rparr>)
     \<lparr>strataTopToBottom =
        [(''user'', [''groupBy'' \<mapsto> JString ''A'']),
         (''defaults'', [''groupBy'' \<mapsto> JString ''B''])]\<rparr>
   = (JString ''A'' :: int json)
 \<and> getValue (new_PrimitiveTrait ''groupBy''
       \<lparr>opt_name = ''Group By'', opt_description = [], opt_type = String_t, opt_isNullable = None\<rparr>)
     \<lparr>strataTopToBottom =
        [(''user'', Map.empty), (''definition'', [''groupBy'' \<mapsto> JString ''B'']),
         (''defaults'', [''groupBy'' \<mapsto> JString ''C''])]\<rparr>
   = (JString ''B'' :: int json)"
  using getValue_first_defined_wins
    [of "\<lparr>strataTopToBottom =
        [(''user'', [''groupBy'' \<mapsto> JString ''A'']),
         (''defaults'', [''groupBy'' \<mapsto> (JString ''B'' :: int json)])]\<rparr>"
        "[]" "''user''" "[''groupBy'' \<mapsto> JString ''A'']"
        "[(''defaults'', [''groupBy'' \<mapsto> JString ''B''])]"
        "new_PrimitiveTrait ''groupBy''
       \<lparr>opt_name = ''Group By'', opt_description = [], opt_type = String_t, opt_isNullable = None\<rparr>"]
    getValue_first_defined_wins
    [of "\<lparr>strataTopToBottom =
        [(''user'', Map.empty), (''definition'', [''groupBy'' \<mapsto> JString ''B'']),
         (''defaults'', [''groupBy'' \<mapsto> (JString ''C'' :: int json)])]\<rparr>"
        "[(''user'', Map.empty)]" "''definition''" "[''groupBy'' \<mapsto> JString ''B'']"
        "[(''defaults'', [''groupBy'' \<mapsto> JString ''C''])]"
        "new_PrimitiveTrait ''groupBy''
       \<lparr>opt_name = ''Group By'', opt_description = [], opt_type = String_t, opt_isNullable = None\<rparr>"]
  by (simp add: new_PrimitiveTrait_def stratum_get_def)

text \<open>
  C2, as stated, fails: \<open>hideEmptyGroups\<close> is declared with the default \<open>true\<close>, and on
  a model whose only stratum does not define it \<open>getValue\<close> returns \<open>undefined\<close>, not
  that default. The decorator builds the trait from the options alone, so the trait holds
  no default that \<open>getValue\<close> could return.
\<close>

theorem getValue_ignores_declared_default:
  "stratum_get (Map.empty :: int stratum) ''hideEmptyGroups'' = JUndefined
 \<and> initializer (hideEmptyGroups :: int PropertyDeclaration) = JBoolean True
 \<and> declare_property (hideEmptyGroups :: int PropertyDeclaration) Map.empty ''hideEmptyGroups''
      = Some (new_PrimitiveTrait ''hideEmptyGroups'' (decorator_options (hideEmptyGroups :: int PropertyDeclaration)))
 \<and> getValue (new_PrimitiveTrait ''hideEmptyGroups'' (decorator_options (hideEmptyGroups :: int PropertyDeclaration)))
      \<lparr>strataTopToBottom = [(''user'', Map.empty)]\<rparr>
     \<noteq> initializer (hideEmptyGroups :: int PropertyDeclaration)"
  by (simp add: hideEmptyGroups_def declare_property_def primitiveTrait_def
      getValue_def values_of_def stratum_get_def new_PrimitiveTrait_def)

text \<open>
  C2, amended. When no stratum of the model stores a value other than \<open>undefined\<close> for
  the trait's id, \<open>PrimitiveTrait.getValue\<close> returns \<open>undefined\<close>, whether or not the
  traits class declares a default for the property.
\<close>

theorem getValue_undefined_when_no_stratum_defines:
  assumes "\<forall>s\<in>set (strataTopToBottom model). stratum_get (snd s) (trait_id this) = JUndefined"
  shows "getValue this model = JUndefined"
proof -
  have "\<forall>a\<in>set (map snd (strataTopToBottom model)). stratum_get a (trait_id this) = JUndefined"
    using assms by simp
  from getValue_loop_skip [OF this, of "[]"] show ?thesis
    by (simp add: getValue_def values_of_def)
qed

theorem getValue_undefined_when_no_stratum_defines_witness:
  "getValue (new_PrimitiveTrait ''hideEmptyGroups'' (decorator_options (hideEmptyGroups :: int PropertyDeclaration)))
      \<lparr>strataTopToBottom = [(''user'', Map.empty), (''definition'', [''groupBy'' \<mapsto> JString ''none''])]\<rparr>
     = (JUndefined :: int json)"
  using getValue_undefined_when_no_stratum_defines
    [of "\<lparr>strataTopToBottom = [(''user'', Map.empty),
           (''definition'', [''groupBy'' \<mapsto> (JString ''none'' :: int json)])]\<rparr>"
        "new_PrimitiveTrait ''hideEmptyGroups'' (decorator_options (hideEmptyGroups :: int PropertyDeclaration))"]
  by (simp add: new_PrimitiveTrait_def stratum_get_def)

text \<open>
  C3. A raw value whose \<open>typeof\<close> differs from the declared type, and which is not
  \<open>null\<close> on a nullable trait, makes \<open>fromJson\<close> return an error titled "Invalid
  property" of severity \<open>Warning\<close> whose message names the trait id, the expected type
  and the actual type; a value of the declared type comes back unchanged as a success.
\<close>

theorem fromJson_type_check:
  "(typeof jsonValue \<noteq> type_string (trait_type this) \<and> \<not> (jsonValue = JNull \<and> isNullable this)
      \<longrightarrow> fromJson this model stratumName jsonValue =
            ResultError
              \<lparr> title = ''Invalid property'',
                message = ''Property '' @ trait_id this @ '' is expected to be of type ''
                            @ type_string (trait_type this)
                            @ '' but instead it is of type '' @ typeof jsonValue @ ''.'',
                severity = Warning \<rparr>)
 \<and> (typeof jsonValue = type_string (trait_type this)
      \<longrightarrow> fromJson this model stratumName jsonValue = ResultValue jsonValue)"
  by (auto simp add: fromJson_def invalid_property_message_def)

theorem fromJson_type_check_witness:
  "fromJson (new_PrimitiveTrait ''groupBy''
       \<lparr>opt_name = ''Group By'', opt_description = [], opt_type = String_t, opt_isNullable = None\<rparr>)
     \<lparr>strataTopToBottom = []\<rparr> ''definition'' (JNumber (42::int))
   = ResultError
       \<lparr> title = ''Invalid property'',
         message = ''Property groupBy is expected to be of type string but instead it is of type number.'',
         severity = Warning \<rparr>
 \<and> fromJson (new_PrimitiveTrait ''groupBy''
       \<lparr>opt_name = ''Group By'', opt_description = [], opt_type = String_t, opt_isNullable = None\<rparr>)
     \<lparr>strataTopToBottom = []\<rparr> ''definition'' (JString ''none'' :: int json)
   = ResultValue (JString ''none'')"
  using fromJson_type_check
    [of "JNumber (42::int)" "new_PrimitiveTrait ''groupBy''
       \<lparr>opt_name = ''Group By'', opt_description = [], opt_type = String_t, opt_isNullable = None\<rparr>"
       "\<lparr>strataTopToBottom = []\<rparr>" "''definition''"]
    fromJson_type_check
    [of "JString ''none'' :: int json" "new_PrimitiveTrait ''groupBy''
       \<lparr>opt_name = ''Group By'', opt_description = [], opt_type = String_t, opt_isNullable = None\<rparr>"
       "\<lparr>strataTopToBottom = []\<rparr>" "''definition''"]
  by (simp add: new_PrimitiveTrait_def)

text \<open>
  C4. On a nullable trait \<open>fromJson\<close> accepts \<open>null\<close>; on a trait that is not nullable
  it rejects \<open>null\<close> with the invalid-property error (actual type \<open>object\<close>). In
  \<open>getValue\<close> a stratum that stores \<open>null\<close> ends the resolution with \<open>null\<close>, while a
  stratum that stores \<open>undefined\<close> is passed over and the strata below decide.
\<close>

theorem null_and_undefined:
  "(isNullable this \<longrightarrow> fromJson this model stratumName JNull = ResultValue JNull)
 \<and> (\<not> isNullable this \<longrightarrow>
       fromJson this model stratumName JNull =
         ResultError
           \<lparr> title = ''Invalid property'',
             message = invalid_property_message (trait_id this)
                         (type_string (trait_type this)) ''object'',
             severity = Warning \<rparr>)
 \<and> (stratum_get stratum (trait_id this) = JNull \<longrightarrow>
       getValue this \<lparr>strataTopToBottom = (name, stratum) # lower\<rparr> = JNull)
 \<and> (stratum_get stratum (trait_id this) = JUndefined \<longrightarrow>
       getValue this \<lparr>strataTopToBottom = (name, stratum) # lower\<rparr>
         = getValue this \<lparr>strataTopToBottom = lower\<rparr>)"
proof -
  have "typeof (JNull :: 'a json) \<noteq> type_string (trait_type this)"
    by (cases "trait_type this") simp_all
  then show ?thesis
    by (simp add: fromJson_def getValue_def values_of_def Let_def)
qed

theorem null_and_undefined_witness:
  "fromJson (new_PrimitiveTrait ''ungroupedTitle''
       \<lparr>opt_name = ''Ungrouped title'', opt_description = [], opt_type = String_t,
        opt_isNullable = Some True\<rparr>)
     \<lparr>strataTopToBottom = []\<rparr> ''user'' (JNull :: int json) = ResultValue JNull
 \<and> fromJson (new_PrimitiveTrait ''ungroupedTitle''
       \<lparr>opt_name = ''Ungrouped title'', opt_description = [], opt_type = String_t,
        opt_isNullable = None\<rparr>)
     \<lparr>strataTopToBottom = []\<rparr> ''user'' (JNull :: int json)
   = ResultError
       \<lparr> title = ''Invalid property'',
         message = ''Property ungroupedTitle is expected to be of type string but instead it is of type object.'',
         severity = Warning \<rparr>
 \<and> getValue (new_PrimitiveTrait ''ungroupedTitle''
       \<lparr>opt_name = ''Ungrouped title'', opt_description = [], opt_type = String_t,
        opt_isNullable = Some True\<rparr>)
     \<lparr>strataTopToBottom =
        [(''user'', [''ungroupedTitle'' \<mapsto> JNull]),
         (''definition'', [''ungroupedTitle'' \<mapsto> JString ''No group''])]\<rparr>
   = (JNull :: int json)
 \<and> getValue (new_PrimitiveTrait ''ungroupedTitle''
       \<lparr>opt_name = ''Ungrouped title'', opt_description = [], opt_type = String_t,
        opt_isNullable = Some True\<rparr>)
     \<lparr>strataTopToBottom =
        [(''user'', [''ungroupedTitle'' \<mapsto> JUndefined]),
         (''definition'', [''ungroupedTitle'' \<mapsto> JString ''No group''])]\<rparr>
   = (JString ''No group'' :: int json)"
  using null_and_undefined
    [of "new_PrimitiveTrait ''ungroupedTitle''
       \<lparr>opt_name = ''Ungrouped title'', opt_description = [], opt_type = String_t,
        opt_isNullable = Some True\<rparr>" "\<lparr>strataTopToBottom = []\<rparr> :: int BaseModel" "''user''"
       "[''ungroupedTitle'' \<mapsto> JNull]" "''user''"
       "[(''definition'', [''ungroupedTitle'' \<mapsto> JString ''No group''])]"]
    null_and_undefined
    [of "new_PrimitiveTrait ''ungroupedTitle''
       \<lparr>opt_name = ''Ungrouped title'', opt_description = [], opt_type = String_t,
        opt_isNullable = None\<rparr>" "\<lparr>strataTopToBottom = []\<rparr> :: int BaseModel" "''user''"
       "[''ungroupedTitle'' \<mapsto> JUndefined]" "''user''"
       "[(''definition'', [''ungroupedTitle'' \<mapsto> JString ''No group''])]"]
  by (simp add: new_PrimitiveTrait_def stratum_get_def invalid_property_message_def
      getValue_def values_of_def)

text \<open>
  C5. \<open>isSameType\<close> holds exactly for a primitive trait with the same declared type and
  the same nullability. It is reflexive and symmetric on primitive traits, and does not
  depend on which trait object is asked: changing id, name and description keeps it true.
\<close>

theorem isSameType_structural:
  "(isSameType this trait \<longleftrightarrow>
      (\<exists>p. trait = IsPrimitiveTrait p \<and> trait_type p = trait_type this
           \<and> isNullable p = isNullable this))
 \<and> isSameType this (IsPrimitiveTrait this)
 \<and> isSameType this (IsPrimitiveTrait other) = isSameType other (IsPrimitiveTrait this)
 \<and> isSameType this (IsPrimitiveTrait (this\<lparr>trait_id := key, trait_name := nm,
                                           trait_description := descr\<rparr>))"
  by (cases trait) (auto simp add: isSameType_def)

theorem isSameType_structural_witness:
  "isSameType
     (new_PrimitiveTrait ''groupBy''
        \<lparr>opt_name = ''Group By'', opt_description = [], opt_type = String_t, opt_isNullable = None\<rparr>)
     (IsPrimitiveTrait (new_PrimitiveTrait ''ungroupedTitle''
        \<lparr>opt_name = ''Ungrouped title'', opt_description = [], opt_type = String_t,
         opt_isNullable = Some False\<rparr>))
 \<and> \<not> isSameType
     (new_PrimitiveTrait ''groupBy''
        \<lparr>opt_name = ''Group By'', opt_description = [], opt_type = String_t, opt_isNullable = None\<rparr>)
     (IsPrimitiveTrait (new_PrimitiveTrait ''hideEmptyGroups''
        \<lparr>opt_name = ''Hide empty groups'', opt_description = [], opt_type = Boolean_t,
         opt_isNullable = None\<rparr>))
 \<and> \<not> isSameType
     (new_PrimitiveTrait ''groupBy''
        \<lparr>opt_name = ''Group By'', opt_description = [], opt_type = String_t, opt_isNullable = None\<rparr>)
     (IsOtherTrait \<lparr>trait_id = ''blacklist'', trait_name = ''Blacklist'', trait_description = []\<rparr>)"
proof -
  let ?groupBy = "new_PrimitiveTrait ''groupBy''
        \<lparr>opt_name = ''Group By'', opt_description = [], opt_type = String_t, opt_isNullable = None\<rparr>"
  let ?ungroupedTitle = "new_PrimitiveTrait ''ungroupedTitle''
        \<lparr>opt_name = ''Ungrouped title'', opt_description = [], opt_type = String_t,
         opt_isNullable = Some False\<rparr>"
  let ?hideEmptyGroups = "new_PrimitiveTrait ''hideEmptyGroups''
        \<lparr>opt_name = ''Hide empty groups'', opt_description = [], opt_type = Boolean_t,
         opt_isNullable = None\<rparr>"
  let ?blacklist = "\<lparr>trait_id = ''blacklist'', trait_name = ''Blacklist'', trait_description = []\<rparr>"
  have same: "isSameType ?groupBy (IsPrimitiveTrait ?ungroupedTitle)"
    using isSameType_structural
      [of ?groupBy "IsPrimitiveTrait ?ungroupedTitle" ?groupBy "[]" "[]" "[]"]
    by (simp add: new_PrimitiveTrait_def)
  have other_type: "\<not> isSameType ?groupBy (IsPrimitiveTrait ?hideEmptyGroups)"
    using isSameType_structural
      [of ?groupBy "IsPrimitiveTrait ?hideEmptyGroups" ?groupBy "[]" "[]" "[]"]
    by (simp add: new_PrimitiveTrait_def)
  have other_class: "\<not> isSameType ?groupBy (IsOtherTrait ?blacklist)"
    using isSameType_structural
      [of ?groupBy "IsOtherTrait ?blacklist" ?groupBy "[]" "[]" "[]"]
    by simp
  from same other_type other_class show ?thesis by simp
qed

text \<open>
  C6. For a value that validates against the trait (its \<open>typeof\<close> is the declared type,
  or it is \<open>null\<close> and the trait is nullable), \<open>fromJson\<close> of \<open>toJson\<close> of the value
  succeeds with exactly that value.
\<close>

theorem toJson_fromJson_roundtrip:
  assumes "typeof v = type_string (trait_type this) \<or> (v = JNull \<and> isNullable this)"
  shows "fromJson this model stratumName (toJson this v) = ResultValue v"
  using assms by (auto simp add: fromJson_def toJson_def)

theorem toJson_fromJson_roundtrip_witness:
  "fromJson (new_PrimitiveTrait ''hideEmptyGroups'' (decorator_options (hideEmptyGroups :: int PropertyDeclaration)))
      \<lparr>strataTopToBottom = []\<rparr> ''definition''
      (toJson (new_PrimitiveTrait ''hideEmptyGroups'' (decorator_options (hideEmptyGroups :: int PropertyDeclaration)))
         (JBoolean True :: int json))
   = ResultValue (JBoolean True)"
  using toJson_fromJson_roundtrip
    [of "JBoolean True :: int json"
        "new_PrimitiveTrait ''hideEmptyGroups'' (decorator_options (hideEmptyGroups :: int PropertyDeclaration))"
        "\<lparr>strataTopToBottom = []\<rparr>" "''definition''"]
  by (simp add: new_PrimitiveTrait_def hideEmptyGroups_def)

section \<open>Properties of the loadable strata\<close>

text \<open>
  C8. For an item whose \<open>getCapabilitiesUrl\<close> is \<open>undefined\<close>,
  \<open>GetCapabilitiesStratum.load\<close> rejects with a \<open>TerriaError\<close> whose title and message
  are the translations of the two "missing URL" keys, and \<open>forceLoadMetadata\<close> passes
  that rejection on: nothing is put into the strata map of the item, no item and no
  stratum object changes, and nothing is requested from the network.
\<close>

theorem load_without_url_rejects:
  assumes "getCapabilitiesUrl (items w this) = None"
  shows "load env w this =
           (Inl \<lparr> error_title = i18next_t env ''models.webMapServiceCatalogItem.missingUrlTitle'',
                  error_message = i18next_t env ''models.webMapServiceCatalogItem.missingUrlMessage'' \<rparr>,
            w\<lparr>console := console w @ [''Loading GetCapabilities'']\<rparr>)
       \<and> forceLoadMetadata env w this =
           (Inl \<lparr> error_title = i18next_t env ''models.webMapServiceCatalogItem.missingUrlTitle'',
                  error_message = i18next_t env ''models.webMapServiceCatalogItem.missingUrlMessage'' \<rparr>,
            w\<lparr>console := console w @ [''Loading GetCapabilities'']\<rparr>)
       \<and> items (snd (forceLoadMetadata env w this)) = items w
       \<and> strata (items (snd (forceLoadMetadata env w this)) this) = strata (items w this)
       \<and> strataObjects (snd (forceLoadMetadata env w this)) = strataObjects w
       \<and> requests (snd (forceLoadMetadata env w this)) = requests w"
proof -
  have l: "load env w this =
           (Inl \<lparr> error_title = i18next_t env ''models.webMapServiceCatalogItem.missingUrlTitle'',
                  error_message = i18next_t env ''models.webMapServiceCatalogItem.missingUrlMessage'' \<rparr>,
            w\<lparr>console := console w @ [''Loading GetCapabilities'']\<rparr>)"
    using assms by (simp add: load_def Let_def)
  show ?thesis
    by (simp add: forceLoadMetadata_def l)
qed

theorem load_without_url_rejects_witness:
  "fst (forceLoadMetadata sample_env sample_world 0) =
      Inl \<lparr> error_title = ''models.webMapServiceCatalogItem.missingUrlTitle'',
             error_message = ''models.webMapServiceCatalogItem.missingUrlMessage'' \<rparr>
 \<and> strata (items (snd (forceLoadMetadata sample_env sample_world 0)) 0) = [(''user'', 0)]"
  using load_without_url_rejects [of sample_world 0 sample_env]
  by (simp add: sample_world_def sample_item_def sample_env_def)

text \<open>
  C7, as stated, fails for \<open>DiffStratum\<close>: the duplicate made for a model that is not
  showing a difference image has \<open>disableStyleSelector\<close> undefined, where the original,
  whose owner is showing one, has \<open>true\<close>. The duplicate keeps only the reference to its
  new owner and derives every value from it.
\<close>

theorem duplicate_DiffStratum_rederives:
  "stratum_at sample_world 0 = Some (DiffStratum 0)
 \<and> duplicateLoadableStratum sample_world 0 1 =
      Some (2, sample_world\<lparr>strataObjects := strataObjects sample_world @ [DiffStratum 1]\<rparr>)
 \<and> map_option value_disableStyleSelector (DiffStratum_values sample_env sample_world 0)
      = Some (Some True)
 \<and> map_option value_disableStyleSelector
      (DiffStratum_values sample_env
         (sample_world\<lparr>strataObjects := strataObjects sample_world @ [DiffStratum 1]\<rparr>) 2)
      = Some None
 \<and> DiffStratum_values sample_env
         (sample_world\<lparr>strataObjects := strataObjects sample_world @ [DiffStratum 1]\<rparr>) 2
     \<noteq> DiffStratum_values sample_env sample_world 0"
  by (simp add: sample_world_def sample_item_def sample_env_def duplicateLoadableStratum_def
      stratum_at_def new_stratum_def DiffStratum_values_def disableStyleSelector_def
      disableDateTimeSelector_def legends_def diffLegendUrl_def truthy_bool_def)

lemma stratum_at_append:
  "stratum_at (w\<lparr>strataObjects := strataObjects w @ [s]\<rparr>) r =
     (if r < length (strataObjects w) then stratum_at w r
      else if r = length (strataObjects w) then Some s else None)"
  by (auto simp add: stratum_at_def nth_append)

lemma diffLegendUrl_cong:
  assumes "diffStyleId a = diffStyleId b" and "firstDiffDate a = firstDiffDate b"
    and "secondDiffDate a = secondDiffDate b"
    and "getLegendUrlForStyle env a = getLegendUrlForStyle env b"
  shows "diffLegendUrl env a = diffLegendUrl env b"
  unfolding diffLegendUrl_def assms ..

lemma legends_cong:
  assumes "isShowingDiff a = isShowingDiff b" and "diffLegendUrl env a = diffLegendUrl env b"
  shows "legends env a = legends env b"
  unfolding legends_def assms ..

text \<open>
  C7, amended. \<open>duplicateLoadableStratum\<close> creates one new stratum object of the same
  class, bound to the given model. For \<open>GetCapabilitiesStratum\<close> it holds the very
  capabilities document of the original. For \<open>DiffStratum\<close> its computed values are those
  derived from the new owner; they are the original's whenever the new owner agrees with
  the original's owner on \<open>isShowingDiff\<close>, \<open>diffStyleId\<close>, the two diff dates and the
  legend URL. Every stratum object that existed and every item stay as they were, and
  nothing is requested from the network or written to the console.
\<close>

theorem duplicateLoadableStratum_rebinds:
  assumes "stratum_at w this = Some s"
  shows "(case s of
            GetCapabilitiesStratum owner document \<Rightarrow>
              duplicateLoadableStratum w this model =
                Some (length (strataObjects w),
                      w\<lparr>strataObjects := strataObjects w @ [GetCapabilitiesStratum model document]\<rparr>)
          | DiffStratum owner \<Rightarrow>
              duplicateLoadableStratum w this model =
                Some (length (strataObjects w),
                      w\<lparr>strataObjects := strataObjects w @ [DiffStratum model]\<rparr>)
              \<and> DiffStratum_values env
                    (w\<lparr>strataObjects := strataObjects w @ [DiffStratum model]\<rparr>)
                    (length (strataObjects w)) =
                  Some \<lparr> value_legends = legends env (items w model),
                         value_diffLegendUrl = diffLegendUrl env (items w model),
                         value_disableStyleSelector = disableStyleSelector (items w model),
                         value_disableDateTimeSelector = disableDateTimeSelector (items w model) \<rparr>
              \<and> (isShowingDiff (items w model) = isShowingDiff (items w owner)
                   \<and> diffStyleId (items w model) = diffStyleId (items w owner)
                   \<and> firstDiffDate (items w model) = firstDiffDate (items w owner)
                   \<and> secondDiffDate (items w model) = secondDiffDate (items w owner)
                   \<and> getLegendUrlForStyle env (items w model) = getLegendUrlForStyle env (items w owner)
                  \<longrightarrow> DiffStratum_values env
                        (w\<lparr>strataObjects := strataObjects w @ [DiffStratum model]\<rparr>)
                        (length (strataObjects w))
                        = DiffStratum_values env w this))
       \<and> (\<forall>w' copy. duplicateLoadableStratum w this model = Some (copy, w') \<longrightarrow>
             copy = length (strataObjects w)
           \<and> map_option catalogItem (stratum_at w' copy) = Some model
           \<and> (\<forall>r < length (strataObjects w). stratum_at w' r = stratum_at w r)
           \<and> items w' = items w
           \<and> requests w' = requests w
           \<and> console w' = console w)"
proof (cases s)
  case (GetCapabilitiesStratum owner document)
  with assms show ?thesis
    by (auto simp add: duplicateLoadableStratum_def new_stratum_def stratum_at_append)
next
  case (DiffStratum owner)
  have same: "legends env (items w model) = legends env (items w owner)
            \<and> diffLegendUrl env (items w model) = diffLegendUrl env (items w owner)"
    if "isShowingDiff (items w model) = isShowingDiff (items w owner)"
      and "diffStyleId (items w model) = diffStyleId (items w owner)"
      and "firstDiffDate (items w model) = firstDiffDate (items w owner)"
      and "secondDiffDate (items w model) = secondDiffDate (items w owner)"
      and "getLegendUrlForStyle env (items w model) = getLegendUrlForStyle env (items w owner)"
    using that diffLegendUrl_cong [of "items w model" "items w owner" env]
      legends_cong [of "items w model" "items w owner" env] by simp
  from DiffStratum assms same show ?thesis
    by (auto simp add: duplicateLoadableStratum_def new_stratum_def stratum_at_append
        DiffStratum_values_def disableStyleSelector_def disableDateTimeSelector_def)
qed

theorem duplicateLoadableStratum_rebinds_witness:
  "stratum_at sample_world 1 = Some (GetCapabilitiesStratum 0 ''capabilities'')
 \<and> duplicateLoadableStratum sample_world 1 1 =
      Some (2, sample_world\<lparr>strataObjects :=
                 [DiffStratum 0, GetCapabilitiesStratum 0 ''capabilities'',
                  GetCapabilitiesStratum 1 ''capabilities'']\<rparr>)"
proof -
  have stored: "stratum_at sample_world 1 = Some (GetCapabilitiesStratum 0 ''capabilities'')"
    by (simp add: sample_world_def stratum_at_def)
  have objects: "strataObjects sample_world = [DiffStratum 0, GetCapabilitiesStratum 0 ''capabilities'']"
    by (simp add: sample_world_def)
  from duplicateLoadableStratum_rebinds [OF stored, of 1 sample_env, THEN conjunct1]
  have "duplicateLoadableStratum sample_world 1 1 =
      Some (2, sample_world\<lparr>strataObjects :=
                 [DiffStratum 0, GetCapabilitiesStratum 0 ''capabilities'',
                  GetCapabilitiesStratum 1 ''capabilities'']\<rparr>)"
    by (simp add: objects)
  with stored show ?thesis by simp
qed

end
